theory Spec2Isabelle
  imports Main "HOL-Library.Sublist"
begin

section \<open>Strings and the identifier codec\<close>

text \<open>
  A Python \<open>str\<close> is a sequence of code points. It is modelled as a \<^typ>\<open>string\<close> in which
  every \<^typ>\<open>char\<close> is one code point below 256 (the Latin-1 range), so \<^const>\<open>length\<close> counts
  what Python's \<open>len\<close> counts. The accented letters of the messages are written by their
  code point: \<open>CHR 0xE1\<close> is a-acute, \<open>CHR 0xED\<close> i-acute, \<open>CHR 0xE9\<close> e-acute,
  \<open>CHR 0xE3\<close> a-tilde, \<open>CHR 0xE7\<close> c-cedilla, \<open>CHR 0xFA\<close> u-acute, \<open>CHR 0xF3\<close> o-acute.

  In a \<open>str\<close> pattern the class \<open>\d\<close> of the \<open>re\<close> module is the Unicode category Nd; below
  code point 256 its members are exactly U+0030 .. U+0039. \<open>\D\<close> is its complement.
\<close>

definition re_d :: "char \<Rightarrow> bool" where
  "re_d c = (c \<in> set ''0123456789'')"

text \<open>\<open>re.sub(r'\D', '', text)\<close>: every character matching \<open>\D\<close> is replaced by nothing.\<close>

definition re_sub_D :: "string \<Rightarrow> string" where
  "re_sub_D text = filter re_d text"

text \<open>The slice \<open>s[i:j]\<close> for literal bounds \<open>0 \<le> i \<le> j\<close>; Python clips it to the string.\<close>

definition slice :: "nat \<Rightarrow> nat \<Rightarrow> string \<Rightarrow> string" where
  "slice i j s = take (j - i) (drop i s)"

text \<open>\<open>format_cnpj\<close>, lines 13-30. The local variable \<open>clean_cnpj\<close> of the source is \<open>c\<close>.\<close>

definition format_cnpj :: "string \<Rightarrow> string" where
  "format_cnpj cnpj_text =
     (let c0 = re_sub_D cnpj_text;
          c = (if length c0 > 14 then take 14 c0 else c0);
          f0 = '''';
          f1 = (if length c > 0 then f0 @ slice 0 2 c else f0);
          f2 = (if length c > 2 then f1 @ ''.'' @ slice 2 5 c else f1);
          f3 = (if length c > 5 then f2 @ ''.'' @ slice 5 8 c else f2);
          f4 = (if length c > 8 then f3 @ ''/'' @ slice 8 12 c else f3);
          f5 = (if length c > 12 then f4 @ ''-'' @ slice 12 14 c else f4)
      in f5)"

text \<open>\<open>clean_cnpj\<close>, lines 32-34.\<close>

definition clean_cnpj :: "string \<Rightarrow> string" where
  "clean_cnpj formatted_cnpj = re_sub_D formatted_cnpj"

text \<open>
  \<open>str.isdigit()\<close>: true when the string is not empty and every character has the Unicode
  property Numeric_Type Digit or Decimal; below code point 256 these are the ten digits and the
  superscripts two, three and one (U+00B2, U+00B3, U+00B9).
\<close>

definition isdigit_char :: "char \<Rightarrow> bool" where
  "isdigit_char c = (re_d c \<or> c \<in> set [CHR 0xB2, CHR 0xB3, CHR 0xB9])"

definition isdigit :: "string \<Rightarrow> bool" where
  "isdigit s = (s \<noteq> [] \<and> list_all isdigit_char s)"

text \<open>\<open>str(n)\<close> for an \<open>int\<close>, as an f-string renders it: decimal, with a minus sign.\<close>

definition digit_chr :: "nat \<Rightarrow> char" where
  "digit_chr n = ''0123456789'' ! (n mod 10)"

fun str_nat :: "nat \<Rightarrow> string" where
  "str_nat n = (if n < 10 then [digit_chr n] else str_nat (n div 10) @ [digit_chr n])"

declare str_nat.simps [simp del]

definition str_int :: "int \<Rightarrow> string" where
  "str_int i = (if i < 0 then ''-'' @ str_nat (nat (- i)) else str_nat (nat i))"

section \<open>Python values, exceptions and the HTTP transport\<close>

text \<open>
  What \<open>response.json()\<close> can return: \<open>None\<close>, \<open>bool\<close>, \<open>int\<close>, \<open>float\<close>, \<open>str\<close>, \<open>list\<close> and
  \<open>dict\<close> with \<open>str\<close> keys. A \<open>dict\<close> is the association list of its items in insertion order;
  a lookup takes the first binding of a key (a real \<open>dict\<close> has one binding for each key).
  Of a \<open>float\<close> only its truth value is used: \<open>Finite m e\<close> stands for \<open>m * 2 ^ e\<close>.
\<close>

datatype pyfloat = Finite int int | PosInf | NegInf | NaN

datatype json =
    JNull
  | JBool bool
  | JInt int
  | JFloat pyfloat
  | JStr string
  | JArr "json list"
  | JObj "(string \<times> json) list"

text \<open>
  The exceptions that occur. \<open>RequestException d\<close> is any instance of
  \<open>requests.exceptions.RequestException\<close> or of a subclass (\<open>ConnectionError\<close>, \<open>Timeout\<close>,
  \<open>SSLError\<close>, ...), \<open>d\<close> being what \<open>str\<close> makes of it; \<open>OtherException d\<close> is an exception of
  any other class outside that hierarchy.
\<close>

datatype exn =
    RequestException string
  | TypeError
  | AttributeError
  | KeyError
  | RecursionError
  | OtherException string

text \<open>
  A \<open>requests.Response\<close>: its \<open>status_code\<close> and what calling \<open>json()\<close> on it does (return
  the parsed body, or raise).
\<close>

record response =
  status_code :: int
  json_result :: "exn + json"

datatype outcome = Returns response | Raises exn

text \<open>
  \<open>requests.get\<close> is a state machine of the outside world: from a state \<open>'s\<close> and the URL it
  gives an outcome and the next state. The \<open>world\<close> also holds the trace of what
  \<open>consultar_cnpj_api\<close> does to its surroundings, in order: a request for a URL, a notice
  shown by \<open>st.warning\<close>, a call of \<open>time.sleep\<close> with its seconds.
\<close>

type_synonym 's transport = "'s \<Rightarrow> string \<Rightarrow> outcome \<times> 's"

datatype event = Requested string | Warned string | Slept int

record 's world =
  net :: 's
  trace :: "event list"

section \<open>The lookup\<close>

definition invalid_msg :: string where
  "invalid_msg = ''CNPJ inv'' @ [CHR 0xE1] @ ''lido. Digite 14 d'' @ [CHR 0xED]
     @ ''gitos num'' @ [CHR 0xE9] @ ''ricos.''"

definition rate_limit_msg :: string where
  "rate_limit_msg = ''Muitas requisi'' @ [CHR 0xE7, CHR 0xF5]
     @ ''es (429). Tentando novamente em 60 segundos...''"

definition not_found_msg :: "string \<Rightarrow> string" where
  "not_found_msg c = ''CNPJ '' @ c @ '' n'' @ [CHR 0xE3] @ ''o encontrado ou inv'' @ [CHR 0xE1]
     @ ''lido na base da API.''"

definition status_msg :: "string \<Rightarrow> int \<Rightarrow> string" where
  "status_msg c status = ''Erro ao consultar '' @ c @ '': Status '' @ str_int status"

definition connection_msg :: "string \<Rightarrow> string" where
  "connection_msg d = ''Erro de conex'' @ [CHR 0xE3] @ ''o: '' @ d"

definition office_url :: "string \<Rightarrow> string" where
  "office_url c = ''https://open.cnpja.com/office/'' @ c"

text \<open>The dictionary \<open>{"error": msg}\<close> that the lookup returns on every failure.\<close>

definition error_dict :: "string \<Rightarrow> json" where
  "error_dict msg = JObj [(''error'', JStr msg)]"

text \<open>
  The clause \<open>except requests.exceptions.RequestException as e\<close> of line 61, applied to the
  result of the \<open>try\<close> block: an exception of that hierarchy becomes the connection failure,
  any other exception passes through to the caller, a returned value is returned.
\<close>

definition except_RequestException :: "exn + json \<Rightarrow> exn + json" where
  "except_RequestException r =
     (case r of
        Inl (RequestException d) \<Rightarrow> Inr (error_dict (connection_msg d))
      | Inl e \<Rightarrow> Inl e
      | Inr v \<Rightarrow> Inr v)"

text \<open>
  \<open>consultar_cnpj_api\<close>, lines 38-62. On status 429 the function calls itself (line 56), and
  every such call is a frame on the interpreter's stack. The interpreter raises
  \<open>RecursionError\<close> when a call would exceed \<open>sys.getrecursionlimit()\<close>, which is 1000 unless
  a program changes it, and the source does not change it. The frames already on the stack
  when the function is entered and those its callees need are not part of the repository,
  so the model takes as the parameter \<open>depth\<close> the number of nested self-calls that still
  fit below the limit: the self-call that does not fit raises \<open>RecursionError\<close> in place
  of running. The recursive call stands inside the \<open>try\<close> block, as in the source, and
  \<open>RecursionError\<close> is not a \<open>RequestException\<close>. \<open>Inl\<close> is an exception that reaches the
  caller.
\<close>

fun consultar_cnpj_api ::
  "nat \<Rightarrow> 's transport \<Rightarrow> string \<Rightarrow> 's world \<Rightarrow> (exn + json) \<times> 's world" where
  "consultar_cnpj_api depth get cnpj w =
     (let clean_cnpj_num = clean_cnpj cnpj in
      if \<not> isdigit clean_cnpj_num \<or> length clean_cnpj_num \<noteq> 14 then
        (Inr (error_dict invalid_msg), w)
      else
        let url = office_url clean_cnpj_num;
            w1 = w\<lparr>net := snd (get (net w) url), trace := trace w @ [Requested url]\<rparr>
        in case fst (get (net w) url) of
             Raises e \<Rightarrow> (except_RequestException (Inl e), w1)
           | Returns response \<Rightarrow>
               if status_code response = 200 then
                 (except_RequestException (json_result response), w1)
               else if status_code response = 429 then
                 (let w2 = w1\<lparr>trace := trace w1 @ [Warned rate_limit_msg, Slept 60]\<rparr> in
                  case depth of
                    0 \<Rightarrow> (except_RequestException (Inl RecursionError), w2)
                  | Suc deeper \<Rightarrow>
                      (let r = consultar_cnpj_api deeper get cnpj w2
                       in (except_RequestException (fst r), snd r)))
               else if status_code response = 404 then
                 (Inr (error_dict (not_found_msg clean_cnpj_num)), w1)
               else
                 (Inr (error_dict (status_msg clean_cnpj_num (status_code response))), w1))"

declare consultar_cnpj_api.simps [simp del]

text \<open>
  Lines 43-45 on their own, the guard that stands before the request (the button handler
  repeats it in lines 128-130): \<open>None\<close> when the guard returns the failure, otherwise the
  digits that key the request.
\<close>

definition validate :: "string \<Rightarrow> string option" where
  "validate cnpj =
     (let clean_cnpj_num = clean_cnpj cnpj in
      if \<not> isdigit clean_cnpj_num \<or> length clean_cnpj_num \<noteq> 14 then None
      else Some clean_cnpj_num)"

section \<open>Extraction for display\<close>

text \<open>Sequencing of statements that may raise: the first exception ends the function.\<close>

definition and_then :: "exn + 'a \<Rightarrow> ('a \<Rightarrow> exn + 'b) \<Rightarrow> exn + 'b" where
  "and_then m f = (case m of Inl e \<Rightarrow> Inl e | Inr a \<Rightarrow> f a)"

text \<open>The truth value of an object, as \<open>if x:\<close> takes it.\<close>

definition py_truthy :: "json \<Rightarrow> bool" where
  "py_truthy v =
     (case v of
        JNull \<Rightarrow> False
      | JBool b \<Rightarrow> b
      | JInt i \<Rightarrow> i \<noteq> 0
      | JFloat x \<Rightarrow> (case x of Finite m e \<Rightarrow> m \<noteq> 0 | _ \<Rightarrow> True)
      | JStr t \<Rightarrow> t \<noteq> []
      | JArr xs \<Rightarrow> xs \<noteq> []
      | JObj d \<Rightarrow> d \<noteq> [])"

text \<open>
  \<open>k in v\<close> for a \<open>str\<close> \<open>k\<close>: a key of a \<open>dict\<close>, an element of a \<open>list\<close>, a substring of a
  \<open>str\<close>; the other objects are not containers and the test raises \<open>TypeError\<close>.
\<close>

definition py_contains :: "string \<Rightarrow> json \<Rightarrow> exn + bool" where
  "py_contains k v =
     (case v of
        JObj d \<Rightarrow> Inr (k \<in> set (map fst d))
      | JArr xs \<Rightarrow> Inr (JStr k \<in> set xs)
      | JStr t \<Rightarrow> Inr (sublist k t)
      | _ \<Rightarrow> Inl TypeError)"

text \<open>\<open>v[k]\<close> for a \<open>str\<close> \<open>k\<close>: only a \<open>dict\<close> is indexed by a \<open>str\<close>.\<close>

definition py_getitem :: "json \<Rightarrow> string \<Rightarrow> exn + json" where
  "py_getitem v k =
     (case v of
        JObj d \<Rightarrow> (case map_of d k of Some x \<Rightarrow> Inr x | None \<Rightarrow> Inl KeyError)
      | _ \<Rightarrow> Inl TypeError)"

text \<open>\<open>v.get(k, default)\<close>: of the objects here only a \<open>dict\<close> has the method.\<close>

definition py_get :: "json \<Rightarrow> string \<Rightarrow> json \<Rightarrow> exn + json" where
  "py_get v k dflt =
     (case v of
        JObj d \<Rightarrow> Inr (case map_of d k of Some x \<Rightarrow> x | None \<Rightarrow> dflt)
      | _ \<Rightarrow> Inl AttributeError)"

text \<open>
  What an f-string makes of an object. For a \<open>float\<close>, a \<open>list\<close> and a \<open>dict\<close> the text is the
  interpreter's \<open>repr\<close>, which is not part of the repository: it is the parameter \<open>repr\<close>.
\<close>

definition str_of :: "(json \<Rightarrow> string) \<Rightarrow> json \<Rightarrow> string" where
  "str_of repr v =
     (case v of
        JStr t \<Rightarrow> t
      | JInt i \<Rightarrow> str_int i
      | JNull \<Rightarrow> ''None''
      | JBool b \<Rightarrow> (if b then ''True'' else ''False'')
      | _ \<Rightarrow> repr v)"

text \<open>
  \<open>for member in members\<close>: a \<open>list\<close> gives its elements, a \<open>dict\<close> its keys, a \<open>str\<close> its
  characters; the other objects are not iterable.
\<close>

definition py_iter :: "json \<Rightarrow> exn + json list" where
  "py_iter v =
     (case v of
        JArr xs \<Rightarrow> Inr xs
      | JObj d \<Rightarrow> Inr (map (\<lambda>kv. JStr (fst kv)) d)
      | JStr t \<Rightarrow> Inr (map (\<lambda>c. JStr [c]) t)
      | _ \<Rightarrow> Inl TypeError)"

text \<open>The loop of lines 102-104; the accumulator is \<open>members_info_list\<close>.\<close>

fun member_names :: "json list \<Rightarrow> json list \<Rightarrow> exn + json list" where
  "member_names [] members_info_list = Inr members_info_list"
| "member_names (member # rest) members_info_list =
     (case py_get member ''person'' (JObj []) of
        Inl e \<Rightarrow> Inl e
      | Inr person \<Rightarrow>
          (case py_get person ''name'' (JStr ''N/A'') of
             Inl e \<Rightarrow> Inl e
           | Inr name \<Rightarrow> member_names rest (members_info_list @ [name])))"

text \<open>\<open>sep.join(items)\<close>: every item must be a \<open>str\<close>.\<close>

fun str_items :: "json list \<Rightarrow> exn + string list" where
  "str_items [] = Inr []"
| "str_items (JStr t # vs) = (case str_items vs of Inl e \<Rightarrow> Inl e | Inr ts \<Rightarrow> Inr (t # ts))"
| "str_items (_ # vs) = Inl TypeError"

fun intercalate :: "string \<Rightarrow> string list \<Rightarrow> string" where
  "intercalate sep [] = []"
| "intercalate sep [t] = t"
| "intercalate sep (t # u # ts) = t @ sep @ intercalate sep (u # ts)"

definition py_join :: "string \<Rightarrow> json list \<Rightarrow> exn + string" where
  "py_join sep items = and_then (str_items items) (\<lambda>ts. Inr (intercalate sep ts))"

text \<open>
  Lines 83-91. \<open>strptime(founded_str, '%Y-%m-%d')\<close> followed by \<open>strftime("%d/%m/%Y")\<close> belongs
  to the \<open>datetime\<close> module, not to the repository: it is the parameter \<open>reformat\<close>, \<open>None\<close>
  when it raises \<open>ValueError\<close>. An argument that is not a \<open>str\<close> raises \<open>TypeError\<close>, which the
  \<open>except ValueError\<close> clause does not catch.
\<close>

definition data_de_abertura :: "(string \<Rightarrow> string option) \<Rightarrow> json \<Rightarrow> exn + json" where
  "data_de_abertura reformat founded_str =
     (if py_truthy founded_str then
        (case founded_str of
           JStr t \<Rightarrow> (case reformat t of Some u \<Rightarrow> Inr (JStr u) | None \<Rightarrow> Inr (JStr ''N/A''))
         | _ \<Rightarrow> Inl TypeError)
      else Inr (JStr ''N/A''))"

text \<open>Lines 99-107.\<close>

definition socios :: "json \<Rightarrow> exn + json" where
  "socios members =
     (if py_truthy members then
        and_then (py_iter members) (\<lambda>ms.
        and_then (member_names ms []) (\<lambda>members_info_list.
        and_then (py_join '', '' members_info_list) (\<lambda>t. Inr (JStr t))))
      else Inr (JStr ''N/A''))"

text \<open>\<open>format_cnpj\<close> applied to an object: \<open>re.sub\<close> raises \<open>TypeError\<close> unless it is a \<open>str\<close>.\<close>

definition format_cnpj_of :: "json \<Rightarrow> exn + json" where
  "format_cnpj_of v = (case v of JStr t \<Rightarrow> Inr (JStr (format_cnpj t)) | _ \<Rightarrow> Inl TypeError)"

text \<open>
  \<open>extract_data_for_display\<close>, lines 64-109. The result is the pair the source returns, \<open>None\<close>
  being Python's \<open>None\<close>; \<open>extracted\<close> is the dictionary in the order of its assignments.
\<close>

definition extract_data_for_display ::
  "(json \<Rightarrow> string) \<Rightarrow> (string \<Rightarrow> string option) \<Rightarrow> json
     \<Rightarrow> exn + ((string \<times> json) list option \<times> json option)" where
  "extract_data_for_display repr reformat response =
     and_then (py_contains ''error'' response) (\<lambda>has_error.
     if has_error then and_then (py_getitem response ''error'') (\<lambda>e. Inr (None, Some e))
     else
     and_then (py_get response ''company'' (JObj [])) (\<lambda>company.
     and_then (py_get response ''address'' (JObj [])) (\<lambda>address_data.
     and_then (py_get response ''status'' (JObj [])) (\<lambda>status_info.
     and_then (py_get response ''mainActivity'' (JObj [])) (\<lambda>main_activity.
     and_then (py_get response ''taxId'' (JStr ''N/A'')) (\<lambda>tax_id.
     and_then (format_cnpj_of tax_id) (\<lambda>cnpj.
     and_then (py_get company ''name'' (JStr ''N/A'')) (\<lambda>razao_social.
     and_then (py_get response ''alias'' (JStr ''N/A'')) (\<lambda>nome_fantasia.
     and_then (py_get response ''founded'' JNull) (\<lambda>founded_str.
     and_then (data_de_abertura reformat founded_str) (\<lambda>abertura.
     and_then (py_get status_info ''text'' (JStr ''N/A'')) (\<lambda>situacao.
     and_then (py_get address_data ''street'' (JStr ''N/A'')) (\<lambda>logradouro.
     and_then (py_get address_data ''number'' (JStr ''N/A'')) (\<lambda>numero.
     and_then (py_get main_activity ''id'' (JStr ''N/A'')) (\<lambda>cnae_id.
     and_then (py_get main_activity ''text'' (JStr ''N/A'')) (\<lambda>cnae_text.
     and_then (py_get company ''members'' (JArr [])) (\<lambda>members.
     and_then (socios members) (\<lambda>socios_text.
     Inr (Some
       [(''CNPJ'', cnpj),
        (''Raz'' @ [CHR 0xE3] @ ''o Social'', razao_social),
        (''Nome Fantasia'', nome_fantasia),
        (''Data de Abertura'', abertura),
        (''Situa'' @ [CHR 0xE7, CHR 0xE3] @ ''o Cadastral'', situacao),
        (''Logradouro'', logradouro),
        (''N'' @ [CHR 0xFA] @ ''mero'', numero),
        (''CNAE Principal'', JStr (str_of repr cnae_id @ '' - '' @ str_of repr cnae_text)),
        (''S'' @ [CHR 0xF3] @ ''cios'', socios_text)],
       None)))))))))))))))))))"

text \<open>
  The button handler after the lookup has returned, lines 135-149: the notices shown
  (\<open>st.error\<close>, \<open>st.success\<close>) and the two entries of \<open>st.session_state\<close>.
\<close>

datatype notice = StError string | StSuccess string

record page =
  shown :: "notice list"
  last_consulted_data :: "(string \<times> json) list option"
  api_raw_response :: json

definition on_api_response ::
  "(json \<Rightarrow> string) \<Rightarrow> (string \<Rightarrow> string option) \<Rightarrow> json \<Rightarrow> page \<Rightarrow> exn + page" where
  "on_api_response repr reformat api_response pg =
     and_then (py_contains ''error'' api_response) (\<lambda>has_error.
     if has_error then
       and_then (py_getitem api_response ''error'') (\<lambda>e.
       Inr (pg\<lparr>shown := shown pg @ [StError (''Erro na consulta: '' @ str_of repr e)],
               last_consulted_data := Some [], api_raw_response := JObj []\<rparr>))
     else
       and_then (extract_data_for_display repr reformat api_response) (\<lambda>r.
       let extracted_data = fst r; error_msg = snd r in
       if (case error_msg of None \<Rightarrow> False | Some m \<Rightarrow> py_truthy m) then
         Inr (pg\<lparr>shown := shown pg @ [StError (''Erro ao processar dados: ''
                        @ (case error_msg of None \<Rightarrow> ''None'' | Some m \<Rightarrow> str_of repr m))],
                 last_consulted_data := Some [], api_raw_response := JObj []\<rparr>)
       else
         Inr (pg\<lparr>shown := shown pg
                   @ [StSuccess (''Consulta conclu'' @ [CHR 0xED] @ ''da com sucesso!'')],
                 last_consulted_data := extracted_data, api_raw_response := api_response\<rparr>)))"

section \<open>The specification's operations\<close>

text \<open>
  \<open>normalize\<close> in the specification's words (4.1): strip every character that is not a
  decimal digit; if more than 14 digits remain, truncate to the first 14.
\<close>

definition normalize_cnpj :: "string \<Rightarrow> string" where
  "normalize_cnpj text = (let d = filter re_d text in if length d > 14 then take 14 d else d)"

text \<open>
  \<open>format\<close> in the specification's words (4.1): separators at the positions 2, 5, 8 and 12 of
  the digit sequence, a separator being written only when a digit follows it.
\<close>

definition separator_before :: "nat \<Rightarrow> string" where
  "separator_before i =
     (if i = 2 \<or> i = 5 then ''.'' else if i = 8 then ''/'' else if i = 12 then ''-'' else [])"

fun punctuate :: "nat \<Rightarrow> string \<Rightarrow> string" where
  "punctuate i [] = []"
| "punctuate i (c # cs) = separator_before i @ c # punctuate (Suc i) cs"

text \<open>Lines 19-30 on their own: the separators laid over a digit sequence.\<close>

definition layout :: "string \<Rightarrow> string" where
  "layout c =
     (let f0 = [];
          f1 = (if length c > 0 then f0 @ slice 0 2 c else f0);
          f2 = (if length c > 2 then f1 @ ''.'' @ slice 2 5 c else f1);
          f3 = (if length c > 5 then f2 @ ''.'' @ slice 5 8 c else f2);
          f4 = (if length c > 8 then f3 @ ''/'' @ slice 8 12 c else f3);
          f5 = (if length c > 12 then f4 @ ''-'' @ slice 12 14 c else f4)
      in f5)"

definition group :: "nat \<Rightarrow> string \<Rightarrow> nat \<Rightarrow> string \<Rightarrow> string" where
  "group k sep n d = (if length d > k then sep @ take n (drop k d) else [])"

text \<open>
  A transport that answers the first \<open>n\<close> requests for \<open>url\<close> with status 429 and the next one
  with anything else, and the state it is in after \<open>n\<close> requests.
\<close>

definition is_429 :: "outcome \<Rightarrow> bool" where
  "is_429 out = (case out of Returns r \<Rightarrow> status_code r = 429 | Raises e \<Rightarrow> False)"



text \<open>
  What lines 51-52 and 57-62 make of an outcome that is not a 429 for the digits \<open>c\<close>: the
  classification of 4.2 (3) and (4) of the specification.
\<close>

definition classify :: "string \<Rightarrow> outcome \<Rightarrow> exn + json" where
  "classify c out =
     (case out of
        Raises e \<Rightarrow> except_RequestException (Inl e)
      | Returns r \<Rightarrow>
          if status_code r = 200 then except_RequestException (json_result r)
          else if status_code r = 404 then Inr (error_dict (not_found_msg c))
          else Inr (error_dict (status_msg c (status_code r))))"

text \<open>The world after one request, after one round of notice and wait, and after \<open>n\<close> rounds.\<close>

definition one_request :: "'s transport \<Rightarrow> string \<Rightarrow> 's world \<Rightarrow> 's world" where
  "one_request get url w = w\<lparr>net := snd (get (net w) url), trace := trace w @ [Requested url]\<rparr>"

definition one_retry :: "'s world \<Rightarrow> 's world" where
  "one_retry w = w\<lparr>trace := trace w @ [Warned rate_limit_msg, Slept 60]\<rparr>"



text \<open>
  The mocked transport of the specification's tests (8): it answers the requests with the
  outcomes of a script, one after the other, whatever the URL.
\<close>

fun scripted :: "outcome list \<Rightarrow> string \<Rightarrow> outcome \<times> outcome list" where
  "scripted [] url = (Raises (OtherException ''script exhausted''), [])"
| "scripted (out # rest) url = (out, rest)"

definition fresh :: "'s \<Rightarrow> 's world" where
  "fresh s = \<lparr>net = s, trace = []\<rparr>"

definition answer :: "int \<Rightarrow> json \<Rightarrow> outcome" where
  "answer status body = Returns \<lparr>status_code = status, json_result = Inr body\<rparr>"

text \<open>
  The shape of a registry record that the extraction relies on (6): the nested entries are
  mappings, \<open>taxId\<close> and the names of the members are strings, \<open>founded\<close> is a string or
  false, \<open>members\<close> is a list of mappings or false; every key may be absent.
\<close>

definition absent_or_dict :: "(string \<times> json) list \<Rightarrow> string \<Rightarrow> bool" where
  "absent_or_dict d k = (case map_of d k of None \<Rightarrow> True | Some (JObj x) \<Rightarrow> True | Some _ \<Rightarrow> False)"

definition absent_or_str :: "(string \<times> json) list \<Rightarrow> string \<Rightarrow> bool" where
  "absent_or_str d k = (case map_of d k of None \<Rightarrow> True | Some (JStr t) \<Rightarrow> True | Some _ \<Rightarrow> False)"

definition sub_dict :: "(string \<times> json) list \<Rightarrow> string \<Rightarrow> (string \<times> json) list" where
  "sub_dict d k = (case map_of d k of Some (JObj x) \<Rightarrow> x | _ \<Rightarrow> [])"

definition member_ok :: "json \<Rightarrow> bool" where
  "member_ok m =
     (case m of
        JObj md \<Rightarrow> absent_or_dict md ''person'' \<and> absent_or_str (sub_dict md ''person'') ''name''
      | _ \<Rightarrow> False)"

definition members_ok :: "(string \<times> json) list \<Rightarrow> bool" where
  "members_ok company =
     (case map_of company ''members'' of
        None \<Rightarrow> True
      | Some (JArr ms) \<Rightarrow> list_all member_ok ms
      | Some v \<Rightarrow> \<not> py_truthy v)"

definition founded_ok :: "(string \<times> json) list \<Rightarrow> bool" where
  "founded_ok d =
     (case map_of d ''founded'' of
        None \<Rightarrow> True
      | Some (JStr t) \<Rightarrow> True
      | Some v \<Rightarrow> \<not> py_truthy v)"

definition well_shaped :: "(string \<times> json) list \<Rightarrow> bool" where
  "well_shaped d =
     (''error'' \<notin> set (map fst d)
      \<and> absent_or_dict d ''company'' \<and> absent_or_dict d ''address''
      \<and> absent_or_dict d ''status'' \<and> absent_or_dict d ''mainActivity''
      \<and> absent_or_str d ''taxId'' \<and> founded_ok d \<and> members_ok (sub_dict d ''company''))"

text \<open>The name a member is listed under: the placeholder when it has none.\<close>

definition member_name :: "json \<Rightarrow> string" where
  "member_name m =
     (case m of
        JObj md \<Rightarrow> (case map_of (sub_dict md ''person'') ''name'' of Some (JStr t) \<Rightarrow> t | _ \<Rightarrow> ''N/A'')
      | _ \<Rightarrow> ''N/A'')"

text \<open>The labels of the display record, in the order of their assignment.\<close>

definition razao_social :: string where
  "razao_social = ''Raz'' @ [CHR 0xE3] @ ''o Social''"

definition situacao_cadastral :: string where
  "situacao_cadastral = ''Situa'' @ [CHR 0xE7, CHR 0xE3] @ ''o Cadastral''"

definition numero :: string where
  "numero = ''N'' @ [CHR 0xFA] @ ''mero''"

definition socios_label :: string where
  "socios_label = ''S'' @ [CHR 0xF3] @ ''cios''"

definition labels :: "string list" where
  "labels = [''CNPJ'', razao_social, ''Nome Fantasia'', ''Data de Abertura'', situacao_cadastral,
             ''Logradouro'', numero, ''CNAE Principal'', socios_label]"

text \<open>
  Stand-ins for the two library functions in the examples: a \<open>repr\<close> that prints a fixed
  text, and a date conversion that knows one date.
\<close>

definition stub_repr :: "json \<Rightarrow> string" where
  "stub_repr v = ''<repr>''"

definition stub_reformat :: "string \<Rightarrow> string option" where
  "stub_reformat t = (if t = ''2020-01-05'' then Some ''05/01/2020'' else None)"

text \<open>
  The display record with its nine entries, and \<open>d.get(k, 'N/A')\<close> read off the result of
  the lookup of \<open>k\<close> in \<open>d\<close>.
\<close>

definition display_record ::
  "json \<Rightarrow> json \<Rightarrow> json \<Rightarrow> json \<Rightarrow> json \<Rightarrow> json \<Rightarrow> json \<Rightarrow> json \<Rightarrow> json \<Rightarrow> (string \<times> json) list" where
  "display_record cnpj razao fantasia abertura situacao logradouro num cnae partners =
     [(''CNPJ'', cnpj), (razao_social, razao), (''Nome Fantasia'', fantasia),
      (''Data de Abertura'', abertura), (situacao_cadastral, situacao),
      (''Logradouro'', logradouro), (numero, num), (''CNAE Principal'', cnae),
      (socios_label, partners)]"

definition or_na :: "json option \<Rightarrow> json" where
  "or_na x = (case x of Some v \<Rightarrow> v | None \<Rightarrow> JStr ''N/A'')"

section \<open>One step of the lookup and its retry loop\<close>

lemma re_d_clean: "list_all re_d (clean_cnpj s)"
  by (simp add: clean_cnpj_def re_sub_D_def list_all_iff)

lemma isdigit_clean: "length (clean_cnpj s) = 14 \<Longrightarrow> isdigit (clean_cnpj s)"
proof -
  assume l: "length (clean_cnpj s) = 14"
  then have "clean_cnpj s \<noteq> []" by auto
  moreover have "list_all isdigit_char (clean_cnpj s)"
    using re_d_clean [of s] by (simp add: list_all_iff isdigit_char_def)
  ultimately show ?thesis by (simp add: isdigit_def)
qed

lemma validate_iff: "validate s = (if length (clean_cnpj s) = 14 then Some (clean_cnpj s) else None)"
  using isdigit_clean [of s] by (auto simp add: validate_def Let_def)

lemma consultar_invalid:
  "length (clean_cnpj cnpj) \<noteq> 14 \<Longrightarrow>
   consultar_cnpj_api depth get cnpj w = (Inr (error_dict invalid_msg), w)"
  by (subst consultar_cnpj_api.simps) (simp add: Let_def)

lemma consultar_terminal:
  assumes "length (clean_cnpj cnpj) = 14"
    and "\<not> is_429 (fst (get (net w) (office_url (clean_cnpj cnpj))))"
  shows "consultar_cnpj_api depth get cnpj w =
         (classify (clean_cnpj cnpj) (fst (get (net w) (office_url (clean_cnpj cnpj)))),
          one_request get (office_url (clean_cnpj cnpj)) w)"
proof (cases "fst (get (net w) (office_url (clean_cnpj cnpj)))")
  case (Returns r)
  with assms(2) have "status_code r \<noteq> 429" by (simp add: is_429_def)
  with Returns assms(1) isdigit_clean [of cnpj] show ?thesis
    by (subst consultar_cnpj_api.simps) (simp add: Let_def classify_def one_request_def)
next
  case (Raises e)
  with assms(1) isdigit_clean [of cnpj] show ?thesis
    by (subst consultar_cnpj_api.simps) (simp add: Let_def classify_def one_request_def)
qed

lemma consultar_retry:
  assumes "length (clean_cnpj cnpj) = 14"
    and "is_429 (fst (get (net w) (office_url (clean_cnpj cnpj))))"
  shows "consultar_cnpj_api (Suc depth) get cnpj w =
         (except_RequestException
            (fst (consultar_cnpj_api depth get cnpj
                    (one_retry (one_request get (office_url (clean_cnpj cnpj)) w)))),
          snd (consultar_cnpj_api depth get cnpj
                 (one_retry (one_request get (office_url (clean_cnpj cnpj)) w))))"
proof -
  from assms(2) obtain r where r: "fst (get (net w) (office_url (clean_cnpj cnpj))) = Returns r"
    and s: "status_code r = 429"
    by (auto simp add: is_429_def split: outcome.splits)
  from r s assms(1) isdigit_clean [of cnpj] show ?thesis
    by (subst consultar_cnpj_api.simps) (simp add: Let_def one_request_def one_retry_def)
qed

lemma consultar_overflow:
  assumes "length (clean_cnpj cnpj) = 14"
    and "is_429 (fst (get (net w) (office_url (clean_cnpj cnpj))))"
  shows "consultar_cnpj_api 0 get cnpj w =
         (Inl RecursionError, one_retry (one_request get (office_url (clean_cnpj cnpj)) w))"
proof -
  from assms(2) obtain r where r: "fst (get (net w) (office_url (clean_cnpj cnpj))) = Returns r"
    and s: "status_code r = 429"
    by (auto simp add: is_429_def split: outcome.splits)
  from r s assms(1) isdigit_clean [of cnpj] show ?thesis
    by (subst consultar_cnpj_api.simps)
       (simp add: Let_def one_request_def one_retry_def except_RequestException_def)
qed








lemma trace_grows:
  assumes "length (clean_cnpj cnpj) = 14"
  shows "length (trace w) < length (trace (snd (consultar_cnpj_api depth get cnpj w)))"
proof (induction depth arbitrary: w)
  case 0
  show ?case
  proof (cases "is_429 (fst (get (net w) (office_url (clean_cnpj cnpj))))")
    case True
    with assms show ?thesis
      by (simp add: consultar_overflow one_retry_def one_request_def)
  next
    case False
    with assms show ?thesis
      by (simp add: consultar_terminal one_request_def)
  qed
next
  case (Suc depth)
  let ?url = "office_url (clean_cnpj cnpj)"
  let ?w2 = "one_retry (one_request get ?url w)"
  show ?case
  proof (cases "is_429 (fst (get (net w) ?url))")
    case True
    have "length (trace w) < length (trace ?w2)"
      by (simp add: one_retry_def one_request_def)
    also have "\<dots> < length (trace (snd (consultar_cnpj_api depth get cnpj ?w2)))"
      by (rule Suc.IH)
    finally show ?thesis
      using assms True by (simp add: consultar_retry)
  next
    case False
    with assms show ?thesis
      by (simp add: consultar_terminal one_request_def)
  qed
qed

lemma same_digits:
  assumes "clean_cnpj a = clean_cnpj b"
  shows "consultar_cnpj_api depth get a w = consultar_cnpj_api depth get b w"
proof (cases "length (clean_cnpj a) = 14")
  case False
  with assms show ?thesis by (simp add: consultar_invalid)
next
  case len: True
  with assms have lenb: "length (clean_cnpj b) = 14" by simp
  show ?thesis
  proof (induction depth arbitrary: w)
    case 0
    show ?case
    proof (cases "is_429 (fst (get (net w) (office_url (clean_cnpj a))))")
      case True
      with len lenb assms show ?thesis
        by (simp add: consultar_overflow)
    next
      case False
      with len lenb assms show ?thesis
        by (simp add: consultar_terminal)
    qed
  next
    case (Suc depth)
    show ?case
    proof (cases "is_429 (fst (get (net w) (office_url (clean_cnpj a))))")
      case True
      with len lenb assms show ?thesis
        by (simp add: consultar_retry Suc.IH)
    next
      case False
      with len lenb assms show ?thesis
        by (simp add: consultar_terminal)
    qed
  qed
qed

section \<open>The codec\<close>

lemma normalize_take: "normalize_cnpj s = take 14 (filter re_d s)"
  by (simp add: normalize_cnpj_def Let_def)

lemma format_layout: "format_cnpj s = layout (normalize_cnpj s)"
  by (simp add: format_cnpj_def layout_def normalize_cnpj_def re_sub_D_def Let_def)

lemma normalize_digits: "\<forall>c \<in> set (normalize_cnpj s). re_d c"
  by (auto simp add: normalize_take dest: in_set_takeD)

lemma normalize_length: "length (normalize_cnpj s) \<le> 14"
  by (simp add: normalize_take)

lemma filter_digits: "\<forall>c \<in> set d. re_d c \<Longrightarrow> filter re_d d = d"
  by (simp add: filter_True)

lemma normalize_idem: "normalize_cnpj (normalize_cnpj s) = normalize_cnpj s"
proof -
  have "filter re_d (normalize_cnpj s) = normalize_cnpj s"
    by (rule filter_digits) (rule normalize_digits)
  then show ?thesis
    using normalize_length [of s] by (simp add: normalize_cnpj_def [of "normalize_cnpj s"] Let_def)
qed

lemma layout_punctuate: "length d \<le> 14 \<Longrightarrow> layout d = punctuate 0 d"
proof -
  assume "length d \<le> 14"
  then have "length d = 0 \<or> length d = 1 \<or> length d = 2 \<or> length d = 3 \<or> length d = 4
      \<or> length d = 5 \<or> length d = 6 \<or> length d = 7 \<or> length d = 8 \<or> length d = 9
      \<or> length d = 10 \<or> length d = 11 \<or> length d = 12 \<or> length d = 13 \<or> length d = 14"
    by arith
  then show ?thesis
    by (elim disjE; (simp add: length_Suc_conv eval_nat_numeral)?; (elim exE conjE)?;
        simp add: layout_def slice_def separator_before_def Let_def)
qed

lemma take_slices:
  "take 2 d @ take 3 (drop 2 d) @ take 3 (drop 5 d) @ take 4 (drop 8 d) @ take 2 (drop 12 d) = take 14 d"
proof -
  have "take 14 d = take (2 + (3 + (3 + (4 + 2)))) d" by simp
  also have "\<dots> = take 2 d @ take 3 (drop 2 d) @ take 3 (drop 5 d) @ take 4 (drop 8 d) @ take 2 (drop 12 d)"
    unfolding take_add by simp
  finally show ?thesis by simp
qed

lemma layout_groups:
  "layout d = group 0 [] 2 d @ group 2 ''.'' 3 d @ group 5 ''.'' 3 d @ group 8 ''/'' 4 d @ group 12 ''-'' 2 d"
  by (simp add: layout_def group_def slice_def Let_def)

lemma filter_group:
  assumes "\<forall>c \<in> set d. re_d c" and "\<forall>c \<in> set sep. \<not> re_d c"
  shows "filter re_d (group k sep n d) = take n (drop k d)"
proof -
  have "set (take n (drop k d)) \<subseteq> set d"
    by (meson set_drop_subset set_take_subset subset_trans)
  then have "filter re_d (take n (drop k d)) = take n (drop k d)"
    using assms(1) by (auto intro: filter_True)
  moreover have "filter re_d sep = []"
    using assms(2) by (induction sep) auto
  ultimately show ?thesis by (simp add: group_def)
qed

lemma filter_layout:
  assumes "\<forall>c \<in> set d. re_d c"
  shows "filter re_d (layout d) = take 14 d"
proof -
  have "filter re_d (layout d) = take 2 d @ take 3 (drop 2 d) @ take 3 (drop 5 d) @ take 4 (drop 8 d) @ take 2 (drop 12 d)"
    unfolding layout_groups filter_append
    by (simp add: filter_group [OF assms] re_d_def)
  then show ?thesis by (simp only: take_slices)
qed

lemma length_layout: "length (layout d) \<le> 18"
  by (simp add: layout_def slice_def Let_def)

lemma clean_format: "clean_cnpj (format_cnpj s) = normalize_cnpj s"
proof -
  have "filter re_d (layout (normalize_cnpj s)) = take 14 (normalize_cnpj s)"
    by (rule filter_layout) (rule normalize_digits)
  then show ?thesis
    using normalize_length [of s] by (simp add: clean_cnpj_def re_sub_D_def format_layout)
qed

text \<open>
  Claim C4. For every input string, formatting its normalized form gives at most 18
  characters, and stripping the non-digit characters from the result gives the normalized
  form back, which is the first 14 digits of the input. \<open>format_cnpj\<close> normalizes its
  argument itself, so formatting the normalized form and formatting the input agree.
\<close>

theorem normalize_format_roundtrip:
  "length (format_cnpj (normalize_cnpj s)) \<le> 18
   \<and> clean_cnpj (format_cnpj (normalize_cnpj s)) = normalize_cnpj s
   \<and> format_cnpj (normalize_cnpj s) = format_cnpj s
   \<and> normalize_cnpj s = take 14 (filter re_d s)"
proof (intro conjI)
  show "length (format_cnpj (normalize_cnpj s)) \<le> 18"
    by (simp add: format_layout length_layout)
  show "clean_cnpj (format_cnpj (normalize_cnpj s)) = normalize_cnpj s"
    by (simp add: clean_format normalize_idem)
  show "format_cnpj (normalize_cnpj s) = format_cnpj s"
    by (simp add: format_layout normalize_idem)
  show "normalize_cnpj s = take 14 (filter re_d s)"
    by (rule normalize_take)
qed

theorem normalize_format_roundtrip_witness:
  "length (format_cnpj (normalize_cnpj ''CNPJ 11.222.333/0001-81 (matriz 99)'')) \<le> 18
   \<and> clean_cnpj (format_cnpj (normalize_cnpj ''CNPJ 11.222.333/0001-81 (matriz 99)'')) = ''11222333000181''"
  using normalize_format_roundtrip [of "''CNPJ 11.222.333/0001-81 (matriz 99)''"]
  by (simp add: normalize_cnpj_def re_d_def format_cnpj_def re_sub_D_def slice_def clean_cnpj_def)

lemma punctuate_append:
  "punctuate i (xs @ ys) = punctuate i xs @ punctuate (i + length xs) ys"
  by (induction xs arbitrary: i) simp_all

lemma punctuate_prefix: "prefix (punctuate i (take k d)) (punctuate i d)"
proof -
  have "punctuate i d = punctuate i (take k d @ drop k d)" by simp
  also have "\<dots> = punctuate i (take k d) @ punctuate (i + length (take k d)) (drop k d)"
    by (rule punctuate_append)
  finally show ?thesis by simp
qed

lemma normalize_fixed:
  assumes "list_all re_d d" and "length d \<le> 14"
  shows "normalize_cnpj d = d"
  using assms by (simp add: normalize_take list_all_iff filter_True)

lemma normalize_take_fixed: "normalize_cnpj (take k (normalize_cnpj s)) = take k (normalize_cnpj s)"
proof (rule normalize_fixed)
  show "list_all re_d (take k (normalize_cnpj s))"
    using normalize_digits [of s] by (auto simp add: list_all_iff dest: in_set_takeD)
  show "length (take k (normalize_cnpj s)) \<le> 14"
    using normalize_length [of s] by simp
qed

text \<open>
  Claim C5. \<open>format_cnpj\<close> writes a full stop before the digits at positions 2 and 5, a
  slash before position 8 and a hyphen before position 12 of the normalized digit sequence,
  and writes a separator only when the digit after it exists; so the rendering of the first
  \<open>k\<close> digits is a prefix of the rendering of all of them. For a sequence of at most 14
  digits nothing is normalized away. The three examples of the specification hold.
\<close>

theorem format_separator_positions:
  "format_cnpj s = punctuate 0 (normalize_cnpj s)
   \<and> (list_all re_d d \<and> length d \<le> 14 \<longrightarrow> format_cnpj d = punctuate 0 d)
   \<and> prefix (format_cnpj (take k (normalize_cnpj s))) (format_cnpj s)
   \<and> format_cnpj ''11222333000181'' = ''11.222.333/0001-81''
   \<and> format_cnpj ''112'' = ''11.2''
   \<and> format_cnpj [] = []"
proof (intro conjI impI)
  show p: "format_cnpj s = punctuate 0 (normalize_cnpj s)" for s
    by (simp add: format_layout layout_punctuate normalize_length)
  show "format_cnpj d = punctuate 0 d" if "list_all re_d d \<and> length d \<le> 14"
    using that p [of d] by (simp add: normalize_fixed)
  show "prefix (format_cnpj (take k (normalize_cnpj s))) (format_cnpj s)"
    by (simp add: p normalize_take_fixed punctuate_prefix)
  show "format_cnpj ''11222333000181'' = ''11.222.333/0001-81''"
    by (simp add: format_cnpj_def re_sub_D_def re_d_def slice_def)
  show "format_cnpj ''112'' = ''11.2''"
    by (simp add: format_cnpj_def re_sub_D_def re_d_def slice_def)
  show "format_cnpj [] = []"
    by (simp add: format_cnpj_def re_sub_D_def)
qed

theorem format_separator_positions_witness:
  "format_cnpj ''1122233300'' = ''11.222.333/00''
   \<and> prefix (format_cnpj ''11222'') (format_cnpj ''1122233300'')"
proof -
  have n: "normalize_cnpj ''1122233300'' = ''1122233300''"
    by (simp add: normalize_cnpj_def re_d_def)
  note inst = format_separator_positions [of "''1122233300''" "''1122233300''" 5]
  from inst [THEN conjunct1] have a: "format_cnpj ''1122233300'' = ''11.222.333/00''"
    by (simp add: n separator_before_def)
  from inst [THEN conjunct2, THEN conjunct2, THEN conjunct1]
  have b: "prefix (format_cnpj ''11222'') (format_cnpj ''1122233300'')"
    by (simp add: n)
  from a b show ?thesis by (rule conjI)
qed

section \<open>The guard before the request\<close>

lemma validate_literal: "validate ''11.222.333/0001-81'' = Some ''11222333000181''"
  by (simp add: validate_def clean_cnpj_def re_sub_D_def re_d_def isdigit_def isdigit_char_def)

lemma validate_short: "validate ''123'' = None"
  by (simp add: validate_def clean_cnpj_def re_sub_D_def re_d_def)

lemma normalize_clean: "normalize_cnpj s = take 14 (clean_cnpj s)"
  by (simp add: normalize_take clean_cnpj_def re_sub_D_def)

lemma invalid_iff:
  "consultar_cnpj_api depth get s w = (Inr (error_dict invalid_msg), w) \<longleftrightarrow> length (clean_cnpj s) \<noteq> 14"
proof
  assume r: "consultar_cnpj_api depth get s w = (Inr (error_dict invalid_msg), w)"
  show "length (clean_cnpj s) \<noteq> 14"
  proof
    assume "length (clean_cnpj s) = 14"
    from trace_grows [OF this, of w depth get] r show False by simp
  qed
next
  assume "length (clean_cnpj s) \<noteq> 14"
  then show "consultar_cnpj_api depth get s w = (Inr (error_dict invalid_msg), w)"
    by (rule consultar_invalid)
qed

text \<open>
  Claim C1, as stated, fails: fifteen digits normalize to a sequence of length 14, and the
  guard rejects them.
\<close>

theorem validate_counterexample:
  "\<not> (validate ''112223330001811'' \<noteq> None \<longleftrightarrow> length (normalize_cnpj ''112223330001811'') = 14)"
  by (simp add: validate_def clean_cnpj_def re_sub_D_def re_d_def normalize_cnpj_def)

text \<open>
  Claim C1, amended. The guard succeeds, with the digits of the input, exactly when the
  input without its non-digit characters (and without truncation) has length 14; it fails
  exactly when the lookup returns the invalid-input failure and leaves the world as it was.
  Where the guard succeeds the normalized form has length 14. The two examples of the
  specification hold.
\<close>

theorem validate_fourteen_digits:
  "(validate s = Some c \<longleftrightarrow> c = clean_cnpj s \<and> length (clean_cnpj s) = 14)
   \<and> (validate s = None \<longleftrightarrow> consultar_cnpj_api depth get s w = (Inr (error_dict invalid_msg), w))
   \<and> (validate s \<noteq> None \<longrightarrow> length (normalize_cnpj s) = 14)
   \<and> validate ''11.222.333/0001-81'' = Some ''11222333000181''
   \<and> validate ''123'' = None"
proof (intro conjI)
  show "validate s = Some c \<longleftrightarrow> c = clean_cnpj s \<and> length (clean_cnpj s) = 14"
    by (auto simp add: validate_iff)
  show "validate s = None \<longleftrightarrow> consultar_cnpj_api depth get s w = (Inr (error_dict invalid_msg), w)"
    by (simp add: validate_iff invalid_iff)
  show "validate s \<noteq> None \<longrightarrow> length (normalize_cnpj s) = 14"
    by (simp add: validate_iff normalize_clean)
  show "validate ''11.222.333/0001-81'' = Some ''11222333000181''"
    by (rule validate_literal)
  show "validate ''123'' = None"
    by (rule validate_short)
qed

theorem validate_fourteen_digits_witness:
  "validate ''00.000.000/0000-00'' = Some ''00000000000000''
   \<and> length (normalize_cnpj ''00.000.000/0000-00'') = 14
   \<and> consultar_cnpj_api 999 scripted ''123'' (fresh []) = (Inr (error_dict invalid_msg), fresh [])"
proof -
  have c: "clean_cnpj ''00.000.000/0000-00'' = ''00000000000000''"
    by (simp add: clean_cnpj_def re_sub_D_def re_d_def)
  note zeros = validate_fourteen_digits [of "''00.000.000/0000-00''" "''00000000000000''" 999 scripted "fresh []"]
  note short = validate_fourteen_digits [of "''123''" "[]" 999 scripted "fresh []"]
  from zeros c have v: "validate ''00.000.000/0000-00'' = Some ''00000000000000''"
    by simp
  with zeros have n: "length (normalize_cnpj ''00.000.000/0000-00'') = 14"
    by simp
  from short have "validate ''123'' = None" by (elim conjE)
  with short have "consultar_cnpj_api 999 scripted ''123'' (fresh []) = (Inr (error_dict invalid_msg), fresh [])"
    by simp
  with v n show ?thesis by simp
qed

text \<open>
  Claim C3. When the digits of the input are not exactly 14, the lookup returns the
  dictionary with the invalid-input message and the world is unchanged: no request has been
  issued, the state of the transport and the trace are the ones before the call.
\<close>

theorem no_request_on_invalid_input:
  assumes "length (clean_cnpj cnpj) \<noteq> 14"
  shows "consultar_cnpj_api depth get cnpj w = (Inr (error_dict invalid_msg), w)"
  using assms by (rule consultar_invalid)

theorem no_request_on_invalid_input_witness:
  "consultar_cnpj_api 999 scripted ''11.222.333/0001'' (fresh [answer 200 JNull])
   = (Inr (JObj [(''error'', JStr invalid_msg)]), \<lparr>net = [answer 200 JNull], trace = []\<rparr>)"
  using no_request_on_invalid_input [of "''11.222.333/0001''" 999 scripted "fresh [answer 200 JNull]"]
  by (simp add: clean_cnpj_def re_sub_D_def re_d_def fresh_def error_dict_def)

section \<open>Status classification, failures and retries\<close>


lemma digits_fixed:
  assumes "list_all re_d c"
  shows "clean_cnpj c = c"
  using assms by (simp add: clean_cnpj_def re_sub_D_def list_all_iff filter_True)



text \<open>
  Claim C7. For an input with 14 digits, when the transport raises an exception of the
  \<open>RequestException\<close> hierarchy the lookup returns the connection failure with the details of
  the exception as a value (\<open>Inr\<close>, not a raised exception), and the trace has grown by the
  one request only: no notice, no wait, no second request.
\<close>

theorem connection_failure_is_terminal:
  assumes "length (clean_cnpj cnpj) = 14"
    and "fst (get (net w) (office_url (clean_cnpj cnpj))) = Raises (RequestException details)"
  shows "consultar_cnpj_api depth get cnpj w
         = (Inr (error_dict (connection_msg details)),
                 w\<lparr>net := snd (get (net w) (office_url (clean_cnpj cnpj))),
                   trace := trace w @ [Requested (office_url (clean_cnpj cnpj))]\<rparr>)"
  using consultar_terminal [OF assms(1), of get w depth] assms(2)
  by (simp add: is_429_def classify_def except_RequestException_def one_request_def)

theorem connection_failure_is_terminal_witness:
  "consultar_cnpj_api 999 scripted ''11.222.333/0001-81''
     (fresh [Raises (RequestException ''Connection refused''), answer 200 JNull])
   = (Inr (JObj [(''error'', JStr (''Erro de conex'' @ [CHR 0xE3] @ ''o: Connection refused''))]),
           \<lparr>net = [answer 200 JNull],
            trace = [Requested ''https://open.cnpja.com/office/11222333000181'']\<rparr>)"
proof -
  have c: "clean_cnpj ''11.222.333/0001-81'' = ''11222333000181''"
    by (simp add: clean_cnpj_def re_sub_D_def re_d_def)
  show ?thesis
    using connection_failure_is_terminal [of "''11.222.333/0001-81''" scripted
        "fresh [Raises (RequestException ''Connection refused''), answer 200 JNull]"
        "''Connection refused''" 999]
    by (simp add: c fresh_def office_url_def error_dict_def connection_msg_def)
qed




text \<open>
  Claim C8. For a sequence \<open>c\<close> of 14 digits, the lookup of the formatted rendering of \<open>c\<close>
  cleans its argument back to \<open>c\<close>, requests the same URL and gives the same result and the
  same world as the lookup of \<open>c\<close>, for every transport and every starting world.
\<close>

theorem formatting_keeps_lookup:
  assumes "length c = 14" and "list_all re_d c"
  shows "clean_cnpj (format_cnpj c) = c
       \<and> office_url (clean_cnpj (format_cnpj c)) = office_url (clean_cnpj c)
       \<and> consultar_cnpj_api depth get (format_cnpj c) w = consultar_cnpj_api depth get c w"
proof -
  have d: "clean_cnpj c = c" using assms(2) by (rule digits_fixed)
  have "normalize_cnpj c = c"
    using assms(1) d by (simp add: normalize_clean)
  then have e: "clean_cnpj (format_cnpj c) = clean_cnpj c"
    using d by (simp add: clean_format)
  from e d same_digits [OF e, of depth get w] show ?thesis by simp
qed

theorem formatting_keeps_lookup_witness:
  "clean_cnpj (format_cnpj ''11222333000181'') = ''11222333000181''
   \<and> consultar_cnpj_api 999 scripted ''11.222.333/0001-81'' (fresh [answer 404 JNull])
     = consultar_cnpj_api 999 scripted ''11222333000181'' (fresh [answer 404 JNull])"
proof -
  have f: "format_cnpj ''11222333000181'' = ''11.222.333/0001-81''"
    by (simp add: format_cnpj_def re_sub_D_def re_d_def slice_def)
  have "list_all re_d ''11222333000181''"
    by (simp add: re_d_def)
  then show ?thesis
    using formatting_keeps_lookup [of "''11222333000181''" 999 scripted "fresh [answer 404 JNull]"]
    by (simp add: f)
qed

section \<open>The extraction\<close>

lemma and_then_Inr [simp]: "and_then (Inr a) f = f a"
  by (simp add: and_then_def)

lemma and_then_Inl [simp]: "and_then (Inl e) f = Inl e"
  by (simp add: and_then_def)

lemma py_get_dict: "py_get (JObj d) k dflt = Inr (case map_of d k of Some x \<Rightarrow> x | None \<Rightarrow> dflt)"
  by (simp add: py_get_def)

lemma nested_dict:
  "absent_or_dict d k \<Longrightarrow> (case map_of d k of Some x \<Rightarrow> x | None \<Rightarrow> JObj []) = JObj (sub_dict d k)"
  by (simp add: absent_or_dict_def sub_dict_def split: option.splits json.splits)

lemma member_names_ok:
  "list_all member_ok ms \<Longrightarrow>
   member_names ms acc = Inr (acc @ map (\<lambda>m. JStr (member_name m)) ms)"
proof (induction ms arbitrary: acc)
  case Nil
  then show ?case by simp
next
  case (Cons m ms)
  from Cons.prems have ok: "member_ok m" and rest: "list_all member_ok ms"
    by simp_all
  from ok obtain md where m: "m = JObj md" and p: "absent_or_dict md ''person''"
    and n: "absent_or_str (sub_dict md ''person'') ''name''"
    by (auto simp add: member_ok_def split: json.splits)
  have "py_get m ''person'' (JObj []) = Inr (JObj (sub_dict md ''person''))"
    using m p by (simp add: py_get_dict nested_dict)
  moreover have "py_get (JObj (sub_dict md ''person'')) ''name'' (JStr ''N/A'') = Inr (JStr (member_name m))"
    using m n by (simp add: py_get_dict member_name_def absent_or_str_def split: option.splits json.splits)
  ultimately show ?case
    using Cons.IH [OF rest] by simp
qed

lemma str_items_names: "str_items (map (\<lambda>m. JStr (f m)) ms) = Inr (map f ms)"
  by (induction ms) simp_all

lemma socios_list:
  assumes "list_all member_ok ms" and "ms \<noteq> []"
  shows "socios (JArr ms) = Inr (JStr (intercalate '', '' (map member_name ms)))"
  using assms
  by (simp add: socios_def py_truthy_def py_iter_def member_names_ok py_join_def str_items_names)

lemma socios_falsy: "\<not> py_truthy v \<Longrightarrow> socios v = Inr (JStr ''N/A'')"
  by (simp add: socios_def)

lemma socios_ok:
  assumes "members_ok c"
  shows "\<exists>t. socios (case map_of c ''members'' of Some x \<Rightarrow> x | None \<Rightarrow> JArr []) = Inr (JStr t)
           \<and> (map_of c ''members'' = None \<longrightarrow> t = ''N/A'')
           \<and> (\<forall>ms. map_of c ''members'' = Some (JArr ms) \<and> ms \<noteq> [] \<longrightarrow>
                 t = intercalate '', '' (map member_name ms))"
proof (cases "map_of c ''members''")
  case None
  then show ?thesis by (simp add: socios_falsy py_truthy_def)
next
  case (Some v)
  show ?thesis
  proof (cases "\<exists>ms. v = JArr ms \<and> ms \<noteq> []")
    case True
    then obtain ms where v: "v = JArr ms" and ne: "ms \<noteq> []" by blast
    with assms Some have "list_all member_ok ms" by (simp add: members_ok_def)
    from socios_list [OF this ne] Some v show ?thesis by simp
  next
    case False
    with assms Some have "\<not> py_truthy v"
      by (auto simp add: members_ok_def py_truthy_def split: json.splits)
    with Some False show ?thesis by (auto simp add: socios_falsy)
  qed
qed

lemma abertura_ok:
  assumes "founded_ok d"
  shows "\<exists>t. data_de_abertura reformat (case map_of d ''founded'' of Some x \<Rightarrow> x | None \<Rightarrow> JNull)
              = Inr (JStr t)
           \<and> (map_of d ''founded'' = None \<longrightarrow> t = ''N/A'')
           \<and> (\<forall>u. map_of d ''founded'' = Some (JStr u) \<and> reformat u = None \<longrightarrow> t = ''N/A'')
           \<and> (\<forall>u v. map_of d ''founded'' = Some (JStr u) \<and> u \<noteq> [] \<and> reformat u = Some v \<longrightarrow> t = v)"
proof (cases "map_of d ''founded''")
  case None
  then show ?thesis by (simp add: data_de_abertura_def py_truthy_def)
next
  case (Some v)
  show ?thesis
  proof (cases "\<exists>u. v = JStr u")
    case True
    then obtain u where "v = JStr u" by blast
    with Some show ?thesis
      by (cases "reformat u") (simp_all add: data_de_abertura_def py_truthy_def)
  next
    case False
    with assms Some have "\<not> py_truthy v"
      by (auto simp add: founded_ok_def split: json.splits)
    with Some False show ?thesis by (simp add: data_de_abertura_def)
  qed
qed

lemma tax_id_ok:
  assumes "absent_or_str d ''taxId''"
  shows "\<exists>t. format_cnpj_of (case map_of d ''taxId'' of Some x \<Rightarrow> x | None \<Rightarrow> JStr ''N/A'') = Inr (JStr t)
           \<and> (\<forall>u. map_of d ''taxId'' = Some (JStr u) \<longrightarrow> t = format_cnpj u)"
  using assms
  by (auto simp add: absent_or_str_def format_cnpj_of_def split: option.splits json.splits)

lemma no_error_key: "''error'' \<notin> set (map fst d) \<Longrightarrow> py_contains ''error'' (JObj d) = Inr False"
  by (simp add: py_contains_def)


lemma extract_well_shaped:
  assumes "well_shaped d"
  shows "\<exists>cnpj abertura partners.
      extract_data_for_display repr reformat (JObj d)
      = Inr (Some (display_record (JStr cnpj)
               (or_na (map_of (sub_dict d ''company'') ''name''))
               (or_na (map_of d ''alias''))
               (JStr abertura)
               (or_na (map_of (sub_dict d ''status'') ''text''))
               (or_na (map_of (sub_dict d ''address'') ''street''))
               (or_na (map_of (sub_dict d ''address'') ''number''))
               (JStr (str_of repr (or_na (map_of (sub_dict d ''mainActivity'') ''id''))
                      @ '' - ''
                      @ str_of repr (or_na (map_of (sub_dict d ''mainActivity'') ''text''))))
               (JStr partners)),
             None)
      \<and> (\<forall>u. map_of d ''taxId'' = Some (JStr u) \<longrightarrow> cnpj = format_cnpj u)
      \<and> (map_of d ''founded'' = None \<longrightarrow> abertura = ''N/A'')
      \<and> (\<forall>u. map_of d ''founded'' = Some (JStr u) \<and> reformat u = None \<longrightarrow> abertura = ''N/A'')
      \<and> (\<forall>u v. map_of d ''founded'' = Some (JStr u) \<and> u \<noteq> [] \<and> reformat u = Some v \<longrightarrow> abertura = v)
      \<and> (map_of (sub_dict d ''company'') ''members'' = None \<longrightarrow> partners = ''N/A'')
      \<and> (\<forall>ms. map_of (sub_dict d ''company'') ''members'' = Some (JArr ms) \<and> ms \<noteq> [] \<longrightarrow>
            partners = intercalate '', '' (map member_name ms))"
proof -
  from assms have e: "py_contains ''error'' (JObj d) = Inr False"
    by (simp add: well_shaped_def no_error_key)
  from assms have c: "(case map_of d ''company'' of Some x \<Rightarrow> x | None \<Rightarrow> JObj []) = JObj (sub_dict d ''company'')"
    and a: "(case map_of d ''address'' of Some x \<Rightarrow> x | None \<Rightarrow> JObj []) = JObj (sub_dict d ''address'')"
    and s: "(case map_of d ''status'' of Some x \<Rightarrow> x | None \<Rightarrow> JObj []) = JObj (sub_dict d ''status'')"
    and m: "(case map_of d ''mainActivity'' of Some x \<Rightarrow> x | None \<Rightarrow> JObj []) = JObj (sub_dict d ''mainActivity'')"
    by (simp_all add: well_shaped_def nested_dict)
  from assms have ts: "absent_or_str d ''taxId''" and fo: "founded_ok d"
    and mo: "members_ok (sub_dict d ''company'')"
    by (simp_all add: well_shaped_def)
  from tax_id_ok [OF ts] obtain cnpj
    where t1: "format_cnpj_of (case map_of d ''taxId'' of Some x \<Rightarrow> x | None \<Rightarrow> JStr ''N/A'') = Inr (JStr cnpj)"
    and t2: "\<forall>u. map_of d ''taxId'' = Some (JStr u) \<longrightarrow> cnpj = format_cnpj u"
    by (elim exE conjE)
  from abertura_ok [OF fo, of reformat] obtain abertura
    where f1: "data_de_abertura reformat (case map_of d ''founded'' of Some x \<Rightarrow> x | None \<Rightarrow> JNull) = Inr (JStr abertura)"
    and f2: "map_of d ''founded'' = None \<longrightarrow> abertura = ''N/A''"
    and f3: "\<forall>u. map_of d ''founded'' = Some (JStr u) \<and> reformat u = None \<longrightarrow> abertura = ''N/A''"
    and f4: "\<forall>u v. map_of d ''founded'' = Some (JStr u) \<and> u \<noteq> [] \<and> reformat u = Some v \<longrightarrow> abertura = v"
    by (elim exE conjE)
  from socios_ok [OF mo] obtain partners
    where p1: "socios (case map_of (sub_dict d ''company'') ''members'' of Some x \<Rightarrow> x | None \<Rightarrow> JArr []) = Inr (JStr partners)"
    and p2: "map_of (sub_dict d ''company'') ''members'' = None \<longrightarrow> partners = ''N/A''"
    and p3: "\<forall>ms. map_of (sub_dict d ''company'') ''members'' = Some (JArr ms) \<and> ms \<noteq> [] \<longrightarrow>
            partners = intercalate '', '' (map member_name ms)"
    by (elim exE conjE)
  have "extract_data_for_display repr reformat (JObj d)
      = Inr (Some (display_record (JStr cnpj)
               (or_na (map_of (sub_dict d ''company'') ''name''))
               (or_na (map_of d ''alias''))
               (JStr abertura)
               (or_na (map_of (sub_dict d ''status'') ''text''))
               (or_na (map_of (sub_dict d ''address'') ''street''))
               (or_na (map_of (sub_dict d ''address'') ''number''))
               (JStr (str_of repr (or_na (map_of (sub_dict d ''mainActivity'') ''id''))
                      @ '' - ''
                      @ str_of repr (or_na (map_of (sub_dict d ''mainActivity'') ''text''))))
               (JStr partners)),
             None)"
    unfolding extract_data_for_display_def display_record_def or_na_def
    by (simp only: e and_then_Inr if_False py_get_dict c a s m t1 f1 p1
        razao_social_def situacao_cadastral_def numero_def socios_label_def)
  with t2 f2 f3 f4 p2 p3 show ?thesis by (intro exI conjI)
qed

lemma map_of_display:
  "map fst (display_record c r f a s l n k p) = labels"
  "map_of (display_record c r f a s l n k p) ''CNPJ'' = Some c"
  "map_of (display_record c r f a s l n k p) razao_social = Some r"
  "map_of (display_record c r f a s l n k p) ''Nome Fantasia'' = Some f"
  "map_of (display_record c r f a s l n k p) ''Data de Abertura'' = Some a"
  "map_of (display_record c r f a s l n k p) situacao_cadastral = Some s"
  "map_of (display_record c r f a s l n k p) ''Logradouro'' = Some l"
  "map_of (display_record c r f a s l n k p) numero = Some n"
  "map_of (display_record c r f a s l n k p) ''CNAE Principal'' = Some k"
  "map_of (display_record c r f a s l n k p) socios_label = Some p"
  by (simp_all add: display_record_def labels_def razao_social_def situacao_cadastral_def
      numero_def socios_label_def)

text \<open>
  Claim C9, as stated, fails. A mapping without the key \<open>error\<close> whose \<open>company\<close> entry is
  \<open>null\<close> makes the extraction raise \<open>AttributeError\<close>; and for the empty mapping the \<open>CNPJ\<close>
  entry of the display record is the empty string, not the placeholder.
\<close>

theorem missing_fields_counterexample:
  "extract_data_for_display stub_repr stub_reformat (JObj [(''company'', JNull)]) = Inl AttributeError
   \<and> extract_data_for_display stub_repr stub_reformat (JObj [])
     = Inr (Some (display_record (JStr []) (JStr ''N/A'') (JStr ''N/A'') (JStr ''N/A'') (JStr ''N/A'')
                    (JStr ''N/A'') (JStr ''N/A'') (JStr ''N/A - N/A'') (JStr ''N/A'')), None)
   \<and> map_of (display_record (JStr []) (JStr ''N/A'') (JStr ''N/A'') (JStr ''N/A'') (JStr ''N/A'')
                    (JStr ''N/A'') (JStr ''N/A'') (JStr ''N/A - N/A'') (JStr ''N/A'')) ''CNPJ''
     \<noteq> Some (JStr ''N/A'')"
proof (intro conjI)
  show "extract_data_for_display stub_repr stub_reformat (JObj [(''company'', JNull)]) = Inl AttributeError"
    by (simp add: extract_data_for_display_def py_contains_def py_get_def format_cnpj_of_def)
  show "extract_data_for_display stub_repr stub_reformat (JObj [])
     = Inr (Some (display_record (JStr []) (JStr ''N/A'') (JStr ''N/A'') (JStr ''N/A'') (JStr ''N/A'')
                    (JStr ''N/A'') (JStr ''N/A'') (JStr ''N/A - N/A'') (JStr ''N/A'')), None)"
    by (simp add: extract_data_for_display_def py_contains_def py_get_def format_cnpj_of_def
        format_cnpj_def re_sub_D_def re_d_def data_de_abertura_def py_truthy_def socios_def
        str_of_def display_record_def razao_social_def situacao_cadastral_def numero_def
        socios_label_def)
  show "map_of (display_record (JStr []) (JStr ''N/A'') (JStr ''N/A'') (JStr ''N/A'') (JStr ''N/A'')
                    (JStr ''N/A'') (JStr ''N/A'') (JStr ''N/A - N/A'') (JStr ''N/A'')) ''CNPJ''
     \<noteq> Some (JStr ''N/A'')"
    by (simp add: map_of_display)
qed

text \<open>
  Claim C9, amended. For a mapping without the key \<open>error\<close> that has the shape the
  extraction relies on (\<open>well_shaped\<close>), the extraction raises nothing and returns a display
  record with the nine labels and no error. An entry whose source key is absent is the
  placeholder: company name, alias, founding date (also when the date does not parse), status
  text, street, number, each half of the main activity, and the members. A \<open>taxId\<close> that is
  present is shown formatted; nothing is said here about the \<open>CNPJ\<close> entry when \<open>taxId\<close> is
  absent.
\<close>

theorem missing_fields_degrade:
  assumes "well_shaped d"
  shows "\<exists>ext. extract_data_for_display repr reformat (JObj d) = Inr (Some ext, None)
     \<and> map fst ext = labels
     \<and> (\<forall>u. map_of d ''taxId'' = Some (JStr u) \<longrightarrow> map_of ext ''CNPJ'' = Some (JStr (format_cnpj u)))
     \<and> (map_of (sub_dict d ''company'') ''name'' = None \<longrightarrow> map_of ext razao_social = Some (JStr ''N/A''))
     \<and> (map_of d ''alias'' = None \<longrightarrow> map_of ext ''Nome Fantasia'' = Some (JStr ''N/A''))
     \<and> (map_of d ''founded'' = None \<longrightarrow> map_of ext ''Data de Abertura'' = Some (JStr ''N/A''))
     \<and> (\<forall>u. map_of d ''founded'' = Some (JStr u) \<and> reformat u = None \<longrightarrow>
           map_of ext ''Data de Abertura'' = Some (JStr ''N/A''))
     \<and> (map_of (sub_dict d ''status'') ''text'' = None \<longrightarrow> map_of ext situacao_cadastral = Some (JStr ''N/A''))
     \<and> (map_of (sub_dict d ''address'') ''street'' = None \<longrightarrow> map_of ext ''Logradouro'' = Some (JStr ''N/A''))
     \<and> (map_of (sub_dict d ''address'') ''number'' = None \<longrightarrow> map_of ext numero = Some (JStr ''N/A''))
     \<and> (\<exists>a b. map_of ext ''CNAE Principal'' = Some (JStr (a @ '' - '' @ b))
           \<and> (map_of (sub_dict d ''mainActivity'') ''id'' = None \<longrightarrow> a = ''N/A'')
           \<and> (map_of (sub_dict d ''mainActivity'') ''text'' = None \<longrightarrow> b = ''N/A''))
     \<and> (map_of (sub_dict d ''company'') ''members'' = None \<longrightarrow> map_of ext socios_label = Some (JStr ''N/A''))
     \<and> (\<forall>ms. map_of (sub_dict d ''company'') ''members'' = Some (JArr ms) \<and> ms \<noteq> [] \<longrightarrow>
           map_of ext socios_label = Some (JStr (intercalate '', '' (map member_name ms))))"
proof -
  from extract_well_shaped [OF assms, of repr reformat] obtain cnpj abertura partners
    where eq: "extract_data_for_display repr reformat (JObj d)
      = Inr (Some (display_record (JStr cnpj)
               (or_na (map_of (sub_dict d ''company'') ''name''))
               (or_na (map_of d ''alias''))
               (JStr abertura)
               (or_na (map_of (sub_dict d ''status'') ''text''))
               (or_na (map_of (sub_dict d ''address'') ''street''))
               (or_na (map_of (sub_dict d ''address'') ''number''))
               (JStr (str_of repr (or_na (map_of (sub_dict d ''mainActivity'') ''id''))
                      @ '' - ''
                      @ str_of repr (or_na (map_of (sub_dict d ''mainActivity'') ''text''))))
               (JStr partners)),
             None)"
    and t: "\<forall>u. map_of d ''taxId'' = Some (JStr u) \<longrightarrow> cnpj = format_cnpj u"
    and f2: "map_of d ''founded'' = None \<longrightarrow> abertura = ''N/A''"
    and f3: "\<forall>u. map_of d ''founded'' = Some (JStr u) \<and> reformat u = None \<longrightarrow> abertura = ''N/A''"
    and f4: "\<forall>u v. map_of d ''founded'' = Some (JStr u) \<and> u \<noteq> [] \<and> reformat u = Some v \<longrightarrow> abertura = v"
    and p2: "map_of (sub_dict d ''company'') ''members'' = None \<longrightarrow> partners = ''N/A''"
    and p3: "\<forall>ms. map_of (sub_dict d ''company'') ''members'' = Some (JArr ms) \<and> ms \<noteq> [] \<longrightarrow>
            partners = intercalate '', '' (map member_name ms)"
    by (elim exE conjE)
  have na: "or_na None = JStr ''N/A''" "str_of repr (JStr ''N/A'') = ''N/A''"
    by (simp_all add: or_na_def str_of_def)
  let ?a = "str_of repr (or_na (map_of (sub_dict d ''mainActivity'') ''id''))"
  let ?b = "str_of repr (or_na (map_of (sub_dict d ''mainActivity'') ''text''))"
  let ?ext = "display_record (JStr cnpj)
               (or_na (map_of (sub_dict d ''company'') ''name''))
               (or_na (map_of d ''alias''))
               (JStr abertura)
               (or_na (map_of (sub_dict d ''status'') ''text''))
               (or_na (map_of (sub_dict d ''address'') ''street''))
               (or_na (map_of (sub_dict d ''address'') ''number''))
               (JStr (?a @ '' - '' @ ?b))
               (JStr partners)"
  have cnae: "\<exists>a b. map_of ?ext ''CNAE Principal'' = Some (JStr (a @ '' - '' @ b))
           \<and> (map_of (sub_dict d ''mainActivity'') ''id'' = None \<longrightarrow> a = ''N/A'')
           \<and> (map_of (sub_dict d ''mainActivity'') ''text'' = None \<longrightarrow> b = ''N/A'')"
    by (rule exI [of _ ?a], rule exI [of _ ?b]) (simp add: map_of_display na)
  show ?thesis
  proof (rule exI [of _ ?ext], intro conjI)
    show "extract_data_for_display repr reformat (JObj d) = Inr (Some ?ext, None)"
      by (rule eq)
    show "\<exists>a b. map_of ?ext ''CNAE Principal'' = Some (JStr (a @ '' - '' @ b))
           \<and> (map_of (sub_dict d ''mainActivity'') ''id'' = None \<longrightarrow> a = ''N/A'')
           \<and> (map_of (sub_dict d ''mainActivity'') ''text'' = None \<longrightarrow> b = ''N/A'')"
      by (rule cnae)
  qed (use t f2 f3 p2 p3 na in \<open>simp_all add: map_of_display\<close>)
qed


theorem missing_fields_degrade_witness:
  "well_shaped [(''taxId'', JStr ''11222333000181''), (''founded'', JStr ''05.01.2020''),
                (''company'', JObj [(''members'', JArr [JObj []])])]
   \<and> (\<exists>ext. extract_data_for_display stub_repr stub_reformat
          (JObj [(''taxId'', JStr ''11222333000181''), (''founded'', JStr ''05.01.2020''),
                 (''company'', JObj [(''members'', JArr [JObj []])])])
          = Inr (Some ext, None)
        \<and> map_of ext ''CNPJ'' = Some (JStr ''11.222.333/0001-81'')
        \<and> map_of ext ''Nome Fantasia'' = Some (JStr ''N/A'')
        \<and> map_of ext ''Data de Abertura'' = Some (JStr ''N/A'')
        \<and> map_of ext socios_label = Some (JStr ''N/A''))"
proof -
  let ?d = "[(''taxId'', JStr ''11222333000181''), (''founded'', JStr ''05.01.2020''),
             (''company'', JObj [(''members'', JArr [JObj []])])]"
  have ws: "well_shaped ?d"
    by (simp add: well_shaped_def absent_or_dict_def absent_or_str_def founded_ok_def
        members_ok_def sub_dict_def member_ok_def)
  have f: "format_cnpj ''11222333000181'' = ''11.222.333/0001-81''"
    by (simp add: format_cnpj_def re_sub_D_def re_d_def slice_def)
  have r: "stub_reformat ''05.01.2020'' = None"
    by (simp add: stub_reformat_def)
  have n: "member_name (JObj []) = ''N/A''"
    by (simp add: member_name_def sub_dict_def)
  from missing_fields_degrade [OF ws, of stub_repr stub_reformat] ws f r n show ?thesis
    apply (elim exE conjE)
    subgoal for ext a b
      by (intro conjI exI [of _ ext]) (simp_all add: sub_dict_def)
    done
qed

lemma and_then_InrE:
  assumes "and_then m f = Inr y"
  obtains a where "m = Inr a" and "f a = Inr y"
  using assms by (cases m) simp_all

lemma extract_no_error_key:
  assumes "map_of m ''error'' = None"
    and "extract_data_for_display repr reformat (JObj m) = Inr r"
  shows "fst r \<noteq> None"
proof -
  from assms(1) have "''error'' \<notin> set (map fst m)"
    by (simp add: map_of_eq_None_iff)
  then have e: "py_contains ''error'' (JObj m) = Inr False"
    by (rule no_error_key)
  from assms(2) show ?thesis
    unfolding extract_data_for_display_def e and_then_Inr if_False
    by (elim and_then_InrE) auto
qed

lemma extract_error_key:
  assumes "map_of m ''error'' = Some e"
  shows "extract_data_for_display repr reformat (JObj m) = Inr (None, Some e)"
proof -
  from assms have "''error'' \<in> set (map fst m)"
    by (metis map_of_eq_None_iff option.distinct(1) set_map)
  then have "py_contains ''error'' (JObj m) = Inr True"
    by (simp add: py_contains_def)
  with assms show ?thesis
    by (simp add: extract_data_for_display_def py_getitem_def)
qed

text \<open>
  Claim C10. For a mapping that contains the key \<open>error\<close>, the extraction returns \<open>None\<close>
  together with the value under that key, and no display record; the lookup hands such a
  mapping through unchanged when it is the body of a 200 response, and the button handler
  then reports it as a failed lookup. For a mapping without the key the extraction never
  returns \<open>None\<close> in place of the display record.
\<close>

theorem error_key_is_failure:
  "(map_of m ''error'' = Some e \<longrightarrow>
      extract_data_for_display repr reformat (JObj m) = Inr (None, Some e)
      \<and> on_api_response repr reformat (JObj m) pg
        = Inr (pg\<lparr>shown := shown pg @ [StError (''Erro na consulta: '' @ str_of repr e)],
                  last_consulted_data := Some [], api_raw_response := JObj []\<rparr>)
      \<and> (length (clean_cnpj cnpj) = 14
           \<and> fst (get (net w) (office_url (clean_cnpj cnpj))) = answer 200 (JObj m) \<longrightarrow>
         consultar_cnpj_api depth get cnpj w
         = (Inr (JObj m), one_request get (office_url (clean_cnpj cnpj)) w)))
   \<and> (map_of m ''error'' = None \<longrightarrow>
      (\<forall>x. extract_data_for_display repr reformat (JObj m) \<noteq> Inr (None, x)))"
proof (intro conjI impI allI)
  assume e: "map_of m ''error'' = Some e"
  then show "extract_data_for_display repr reformat (JObj m) = Inr (None, Some e)"
    by (rule extract_error_key)
  from e have "''error'' \<in> set (map fst m)"
    by (metis map_of_eq_None_iff option.distinct(1) set_map)
  then have "py_contains ''error'' (JObj m) = Inr True"
    by (simp add: py_contains_def)
  with e show "on_api_response repr reformat (JObj m) pg
        = Inr (pg\<lparr>shown := shown pg @ [StError (''Erro na consulta: '' @ str_of repr e)],
                  last_consulted_data := Some [], api_raw_response := JObj []\<rparr>)"
    by (simp add: on_api_response_def py_getitem_def)
next
  assume "length (clean_cnpj cnpj) = 14
           \<and> fst (get (net w) (office_url (clean_cnpj cnpj))) = answer 200 (JObj m)"
  then show "consultar_cnpj_api depth get cnpj w
         = (Inr (JObj m), one_request get (office_url (clean_cnpj cnpj)) w)"
    using consultar_terminal [of cnpj get w depth]
    by (simp add: answer_def is_429_def classify_def except_RequestException_def)
next
  fix x
  assume "map_of m ''error'' = None"
  from extract_no_error_key [OF this, of repr reformat "(None, x)"]
  show "extract_data_for_display repr reformat (JObj m) \<noteq> Inr (None, x)"
    by auto
qed

theorem error_key_is_failure_witness:
  "extract_data_for_display stub_repr stub_reformat
     (JObj [(''error'', JStr ''quota''), (''taxId'', JStr ''11222333000181'')])
   = Inr (None, Some (JStr ''quota''))
   \<and> consultar_cnpj_api 999 scripted ''11222333000181''
       (fresh [answer 200 (JObj [(''error'', JStr ''quota''), (''taxId'', JStr ''11222333000181'')])])
     = (Inr (JObj [(''error'', JStr ''quota''), (''taxId'', JStr ''11222333000181'')]),
             \<lparr>net = [], trace = [Requested ''https://open.cnpja.com/office/11222333000181'']\<rparr>)
   \<and> on_api_response stub_repr stub_reformat
       (JObj [(''error'', JStr ''quota''), (''taxId'', JStr ''11222333000181'')])
       \<lparr>shown = [], last_consulted_data = None, api_raw_response = JNull\<rparr>
     = Inr \<lparr>shown = [StError ''Erro na consulta: quota''], last_consulted_data = Some [],
            api_raw_response = JObj []\<rparr>"
proof -
  have c: "clean_cnpj ''11222333000181'' = ''11222333000181''"
    by (simp add: clean_cnpj_def re_sub_D_def re_d_def)
  show ?thesis
    using error_key_is_failure [of "[(''error'', JStr ''quota''), (''taxId'', JStr ''11222333000181'')]"
        "JStr ''quota''" stub_repr stub_reformat
        "\<lparr>shown = [], last_consulted_data = None, api_raw_response = JNull\<rparr>"
        "''11222333000181''" scripted
        "fresh [answer 200 (JObj [(''error'', JStr ''quota''), (''taxId'', JStr ''11222333000181'')])]"
        999]
    by (simp add: c fresh_def one_request_def office_url_def str_of_def)
qed

end
